theory Spec2Isabelle
  imports Main "HOL-Library.State_Monad" "HOL-Library.Monad_Syntax"
begin

section \<open>The unit model consumed by the suite\<close>

text \<open>
  Package \<^verbatim>\<open>storagetests\<close> is a conformance suite: a catalogue \<^verbatim>\<open>tests\<close> of
  scenarios and the runner \<^verbatim>\<open>RunStorageTests\<close>. The storage under test, the unit
  library and the assertion library are imported packages. The suite only builds a few
  fixture units, so units are a datatype with one constructor per variant; every unit
  carries its identifier and its title. What the unit library computes beyond building
  fixtures (the equality oracle, the printed name of a type tag, the identifiers it
  draws) is a parameter of the model, see \<open>unit_pkg\<close> below.
\<close>

type_synonym ident = string

record TodoItem =
  Data :: string
  Done :: bool

datatype UnitType =
  TypeUnit | TypeTextPlain | TypeTextMarkdown | TypeTextCode | TypeTodo | TypeList

datatype Unit =
    PlainUnit ident string
  | TextPlain ident string string
  | TextMarkdown ident string string
  | TextCode ident string string string
  | Todo ident string "TodoItem list"
  | UnitList ident string "Unit list"

fun ID :: "Unit \<Rightarrow> ident" where
  "ID (PlainUnit i t) = i"
| "ID (TextPlain i t d) = i"
| "ID (TextMarkdown i t d) = i"
| "ID (TextCode i t d g) = i"
| "ID (Todo i t xs) = i"
| "ID (UnitList i t us) = i"

fun Type :: "Unit \<Rightarrow> UnitType" where
  "Type (PlainUnit i t) = TypeUnit"
| "Type (TextPlain i t d) = TypeTextPlain"
| "Type (TextMarkdown i t d) = TypeTextMarkdown"
| "Type (TextCode i t d g) = TypeTextCode"
| "Type (Todo i t xs) = TypeTodo"
| "Type (UnitList i t us) = TypeList"

text \<open>
  The constructors of the unit library take functional options; an option is a function
  that updates the unit under construction and leaves units of another variant alone.
\<close>

fun OptionTitle :: "string \<Rightarrow> Unit \<Rightarrow> Unit" where
  "OptionTitle s (PlainUnit i t) = PlainUnit i s"
| "OptionTitle s (TextPlain i t d) = TextPlain i s d"
| "OptionTitle s (TextMarkdown i t d) = TextMarkdown i s d"
| "OptionTitle s (TextCode i t d g) = TextCode i s d g"
| "OptionTitle s (Todo i t xs) = Todo i s xs"
| "OptionTitle s (UnitList i t us) = UnitList i s us"

fun OptionTextPlainData :: "string \<Rightarrow> Unit \<Rightarrow> Unit" where
  "OptionTextPlainData s (TextPlain i t d) = TextPlain i t s"
| "OptionTextPlainData s u = u"

fun OptionTextMarkdownData :: "string \<Rightarrow> Unit \<Rightarrow> Unit" where
  "OptionTextMarkdownData s (TextMarkdown i t d) = TextMarkdown i t s"
| "OptionTextMarkdownData s u = u"

fun OptionTextCodeData :: "string \<Rightarrow> Unit \<Rightarrow> Unit" where
  "OptionTextCodeData s (TextCode i t d g) = TextCode i t s g"
| "OptionTextCodeData s u = u"

fun OptionTextCodeLanguage :: "string \<Rightarrow> Unit \<Rightarrow> Unit" where
  "OptionTextCodeLanguage s (TextCode i t d g) = TextCode i t d s"
| "OptionTextCodeLanguage s u = u"

definition apply_options :: "(Unit \<Rightarrow> Unit) list \<Rightarrow> Unit \<Rightarrow> Unit" where
  "apply_options opts u = fold (\<lambda>opt v. opt v) opts u"

text \<open>Todo items: \<^verbatim>\<open>NewItem\<close>, \<^verbatim>\<open>SetData\<close>, \<^verbatim>\<open>SetDone\<close> and the two \<^verbatim>\<open>SetItems\<close> methods.\<close>

definition NewItem :: "Unit \<Rightarrow> TodoItem" where
  "NewItem u = \<lparr>Data = [], Done = False\<rparr>"

definition SetData :: "string \<Rightarrow> TodoItem \<Rightarrow> TodoItem" where
  "SetData s it = it\<lparr>Data := s\<rparr>"

definition SetDone :: "bool \<Rightarrow> TodoItem \<Rightarrow> TodoItem" where
  "SetDone b it = it\<lparr>Done := b\<rparr>"

fun Todo_SetItems :: "TodoItem list \<Rightarrow> Unit \<Rightarrow> Unit" where
  "Todo_SetItems xs (Todo i t ys) = Todo i t xs"
| "Todo_SetItems xs u = u"

fun List_SetItems :: "Unit list \<Rightarrow> Unit \<Rightarrow> Unit" where
  "List_SetItems us (UnitList i t vs) = UnitList i t us"
| "List_SetItems us u = u"

text \<open>
  The parts of the unit library that the suite calls and that are not fixture building:
  \<^verbatim>\<open>unit.Equal\<close> on two interface values (\<open>None\<close> is the nil interface), the
  \<^verbatim>\<open>String\<close> method of a type tag, and the identifier drawn for the \<open>k\<close>-th unit
  that is constructed.
\<close>

record unit_pkg =
  Equal :: "Unit option \<Rightarrow> Unit option \<Rightarrow> bool"
  TypeString :: "UnitType \<Rightarrow> string"
  newID :: "nat \<Rightarrow> ident"

section \<open>The storage contract and the test context\<close>

datatype error = Err string

text \<open>
  \<^verbatim>\<open>storage.Interface\<close>: the methods the suite calls on an instance \<open>'h\<close>, each a
  function of the backing state \<open>'w\<close> (a directory, a database, a heap). A Go
  \<^verbatim>\<open>error\<close> is \<open>error option\<close> with \<open>None\<close> for nil; a unit interface value is
  \<open>Unit option\<close>; a byte slice is \<open>string option\<close> with \<open>None\<close> for the nil slice.
  \<open>Marshal\<close> is \<^verbatim>\<open>json.Marshal\<close> applied to the instance.
\<close>

record ('h, 'w) Interface =
  Create :: "'h \<Rightarrow> 'w \<Rightarrow> error option \<times> 'w"
  IsCreated :: "'h \<Rightarrow> 'w \<Rightarrow> bool \<times> 'w"
  Remove :: "'h \<Rightarrow> 'w \<Rightarrow> error option \<times> 'w"
  SaveUnit :: "'h \<Rightarrow> Unit option \<Rightarrow> 'w \<Rightarrow> error option \<times> 'w"
  RemoveUnit :: "'h \<Rightarrow> Unit option \<Rightarrow> 'w \<Rightarrow> error option \<times> 'w"
  LoadUnit :: "'h \<Rightarrow> ident \<Rightarrow> 'w \<Rightarrow> (Unit option \<times> error option) \<times> 'w"
  Marshal :: "'h \<Rightarrow> 'w \<Rightarrow> (string option \<times> error option) \<times> 'w"

text \<open>
  \<^verbatim>\<open>CreateFunc\<close> returns a storage object. \<^verbatim>\<open>LoadFromConfigFunc\<close> returns an
  instance, which may be nil, and an error; the suite receives it as a value that may
  itself be nil (\<open>None\<close>).
\<close>

type_synonym ('h, 'w) CreateFunc = "'w \<Rightarrow> 'h \<times> 'w"

type_synonym ('h, 'w) LoadFromConfigFunc =
  "string option \<Rightarrow> 'w \<Rightarrow> ('h option \<times> error option) \<times> 'w"

text \<open>
  What a run leaves behind: the calls made to the storage and the outcome of every
  assertion, in program order (\<open>trace\<close>), and the test context \<^verbatim>\<open>*testing.T\<close> of the
  running test: whether it has failed, whether it was skipped, and the reports of the
  sub-tests it has run.
\<close>

datatype 'h event =
    CallCreateFunc 'h
  | CallCreate 'h
  | CallIsCreated 'h
  | CallRemove 'h
  | CallSaveUnit 'h "Unit option"
  | CallRemoveUnit 'h "Unit option"
  | CallLoadUnit 'h ident
  | CallMarshal 'h
  | CallLoadFromConfig "string option"
  | Assertion bool

datatype status = Passed | Failed | Skipped

datatype report = Report string status "report list"

fun report_name :: "report \<Rightarrow> string" where
  "report_name (Report n s rs) = n"

fun report_status :: "report \<Rightarrow> status" where
  "report_status (Report n s rs) = s"

fun report_children :: "report \<Rightarrow> report list" where
  "report_children (Report n s rs) = rs"

record ('h, 'w) tstate =
  world :: 'w
  next_id :: nat
  trace :: "'h event list"
  failed :: bool
  skipped :: bool
  subtests :: "report list"

text \<open>
  How a test function ends: it returns, it leaves through \<^verbatim>\<open>runtime.Goexit\<close>
  (\<^verbatim>\<open>t.SkipNow\<close>), or it panics (a method called on a nil interface value), which
  ends the whole test binary.
\<close>

datatype ctl = Returned | Exited | Panicked

type_synonym ('h, 'w) test = "(('h, 'w) tstate, ctl) state"

subsection \<open>Calls to the storage\<close>

definition log :: "'h event \<Rightarrow> ('h, 'w) tstate \<Rightarrow> ('h, 'w) tstate" where
  "log ev st = st\<lparr>trace := trace st @ [ev]\<rparr>"

definition new_storage :: "('h, 'w) CreateFunc \<Rightarrow> (('h, 'w) tstate, 'h) state" where
  "new_storage c = State (\<lambda>st.
     case c (world st) of (s, w) \<Rightarrow> (s, log (CallCreateFunc s) (st\<lparr>world := w\<rparr>)))"

definition call :: "'h event \<Rightarrow> ('w \<Rightarrow> 'a \<times> 'w) \<Rightarrow> (('h, 'w) tstate, 'a) state" where
  "call ev f = State (\<lambda>st.
     case f (world st) of (r, w) \<Rightarrow> (r, log ev (st\<lparr>world := w\<rparr>)))"

definition s_Create :: "('h, 'w) Interface \<Rightarrow> 'h \<Rightarrow> (('h, 'w) tstate, error option) state" where
  "s_Create B s = call (CallCreate s) (Create B s)"

definition s_IsCreated :: "('h, 'w) Interface \<Rightarrow> 'h \<Rightarrow> (('h, 'w) tstate, bool) state" where
  "s_IsCreated B s = call (CallIsCreated s) (IsCreated B s)"

definition s_Remove :: "('h, 'w) Interface \<Rightarrow> 'h \<Rightarrow> (('h, 'w) tstate, error option) state" where
  "s_Remove B s = call (CallRemove s) (Remove B s)"

definition s_SaveUnit ::
  "('h, 'w) Interface \<Rightarrow> 'h \<Rightarrow> Unit option \<Rightarrow> (('h, 'w) tstate, error option) state" where
  "s_SaveUnit B s u = call (CallSaveUnit s u) (SaveUnit B s u)"

definition s_RemoveUnit ::
  "('h, 'w) Interface \<Rightarrow> 'h \<Rightarrow> Unit option \<Rightarrow> (('h, 'w) tstate, error option) state" where
  "s_RemoveUnit B s u = call (CallRemoveUnit s u) (RemoveUnit B s u)"

definition s_LoadUnit ::
  "('h, 'w) Interface \<Rightarrow> 'h \<Rightarrow> ident \<Rightarrow> (('h, 'w) tstate, Unit option \<times> error option) state" where
  "s_LoadUnit B s i = call (CallLoadUnit s i) (LoadUnit B s i)"

definition json_Marshal ::
  "('h, 'w) Interface \<Rightarrow> 'h \<Rightarrow> (('h, 'w) tstate, string option \<times> error option) state" where
  "json_Marshal B s = call (CallMarshal s) (Marshal B s)"

definition load_config ::
  "('h, 'w) LoadFromConfigFunc \<Rightarrow> string option \<Rightarrow>
   (('h, 'w) tstate, 'h option \<times> error option) state" where
  "load_config l config = call (CallLoadFromConfig config) (l config)"

subsection \<open>Constructors of the unit library\<close>

text \<open>Each constructor draws the next identifier of the library and applies the options.\<close>

definition fresh_id :: "unit_pkg \<Rightarrow> (('h, 'w) tstate, ident) state" where
  "fresh_id X = State (\<lambda>st. (newID X (next_id st), st\<lparr>next_id := Suc (next_id st)\<rparr>))"

definition NewUnit :: "unit_pkg \<Rightarrow> (Unit \<Rightarrow> Unit) list \<Rightarrow> (('h, 'w) tstate, Unit) state" where
  "NewUnit X opts = do {
     i \<leftarrow> fresh_id X;
     State_Monad.return (apply_options opts (PlainUnit i []))
   }"

definition NewTextPlain :: "unit_pkg \<Rightarrow> (Unit \<Rightarrow> Unit) list \<Rightarrow> (('h, 'w) tstate, Unit) state" where
  "NewTextPlain X opts = do {
     i \<leftarrow> fresh_id X;
     State_Monad.return (apply_options opts (TextPlain i [] []))
   }"

definition NewTextMarkdown :: "unit_pkg \<Rightarrow> (Unit \<Rightarrow> Unit) list \<Rightarrow> (('h, 'w) tstate, Unit) state" where
  "NewTextMarkdown X opts = do {
     i \<leftarrow> fresh_id X;
     State_Monad.return (apply_options opts (TextMarkdown i [] []))
   }"

definition NewTextCode :: "unit_pkg \<Rightarrow> (Unit \<Rightarrow> Unit) list \<Rightarrow> (('h, 'w) tstate, Unit) state" where
  "NewTextCode X opts = do {
     i \<leftarrow> fresh_id X;
     State_Monad.return (apply_options opts (TextCode i [] [] []))
   }"

definition NewTodo :: "unit_pkg \<Rightarrow> (Unit \<Rightarrow> Unit) list \<Rightarrow> (('h, 'w) tstate, Unit) state" where
  "NewTodo X opts = do {
     i \<leftarrow> fresh_id X;
     State_Monad.return (apply_options opts (Todo i [] []))
   }"

definition NewList :: "unit_pkg \<Rightarrow> (Unit \<Rightarrow> Unit) list \<Rightarrow> (('h, 'w) tstate, Unit) state" where
  "NewList X opts = do {
     i \<leftarrow> fresh_id X;
     State_Monad.return (apply_options opts (UnitList i [] []))
   }"

subsection \<open>Assertions and the test context\<close>

text \<open>
  The assertion object \<^verbatim>\<open>is\<close> reports to the test context it was made from and never
  stops the test: a failed assertion marks the test failed and the body goes on. Every
  body below asserts on the context of the test that is running (the nested sub-tests
  shadow \<^verbatim>\<open>is\<close> with \<^verbatim>\<open>assert.New(t)\<close> of their own \<^verbatim>\<open>t\<close>).
\<close>

definition check :: "bool \<Rightarrow> (('h, 'w) tstate, unit) state" where
  "check ok = State (\<lambda>st. ((), log (Assertion ok) (st\<lparr>failed := failed st \<or> \<not> ok\<rparr>)))"

definition is_NoError :: "error option \<Rightarrow> (('h, 'w) tstate, unit) state" where
  "is_NoError e = check (e = None)"

definition is_Error :: "error option \<Rightarrow> (('h, 'w) tstate, unit) state" where
  "is_Error e = check (e \<noteq> None)"

definition is_True :: "bool \<Rightarrow> (('h, 'w) tstate, unit) state" where
  "is_True b = check b"

definition is_False :: "bool \<Rightarrow> (('h, 'w) tstate, unit) state" where
  "is_False b = check (\<not> b)"

definition is_Nil :: "'a option \<Rightarrow> (('h, 'w) tstate, unit) state" where
  "is_Nil x = check (x = None)"

definition is_NotNil :: "'a option \<Rightarrow> (('h, 'w) tstate, unit) state" where
  "is_NotNil x = check (x \<noteq> None)"

definition SkipNow :: "('h, 'w) test" where
  "SkipNow = State (\<lambda>st. (Exited, st\<lparr>skipped := True\<rparr>))"

text \<open>
  The verdict on a finished test function: failed when it panicked or an assertion
  failed, in it or in one of its sub-tests; otherwise skipped when it called
  \<^verbatim>\<open>SkipNow\<close>; otherwise passed.
\<close>

definition verdict :: "ctl \<Rightarrow> ('h, 'w) tstate \<Rightarrow> status" where
  "verdict r st =
     (if r = Panicked \<or> failed st then Failed else if skipped st then Skipped else Passed)"

text \<open>
  \<^verbatim>\<open>t.Run(name, f)\<close> runs \<open>f\<close> to its end on a fresh context, appends the report of
  the sub-test to the parent, marks the parent failed when the sub-test failed, and
  returns; a panic of \<open>f\<close> is not caught.
\<close>

definition Run :: "string \<Rightarrow> ('h, 'w) test \<Rightarrow> ('h, 'w) test" where
  "Run name f = State (\<lambda>st.
     case run_state f (st\<lparr>failed := False, skipped := False, subtests := []\<rparr>) of
       (r, st') \<Rightarrow>
         (if r = Panicked then Panicked else Returned,
          st'\<lparr>failed := failed st \<or> verdict r st' = Failed,
              skipped := skipped st,
              subtests := subtests st @ [Report name (verdict r st') (subtests st')]\<rparr>))"

section \<open>The scenario catalogue\<close>

text \<open>
  A scenario is a \<^verbatim>\<open>Func\<close>: it receives the test context (the state), the factory
  \<open>c\<close> and the optional factory \<open>l\<close>. The model passes it in addition the imported unit
  library \<open>X\<close> and the implementation \<open>B\<close> behind the instances that \<open>c\<close> and \<open>l\<close>
  return. The bodies follow the catalogue \<^verbatim>\<open>tests\<close> entry by entry.
\<close>

type_synonym ('h, 'w) Func =
  "unit_pkg \<Rightarrow> ('h, 'w) Interface \<Rightarrow> ('h, 'w) CreateFunc \<Rightarrow>
   ('h, 'w) LoadFromConfigFunc option \<Rightarrow> ('h, 'w) test"

definition test_not_created_initially :: "('h, 'w) Func" where
  "test_not_created_initially X B c l = do {
     s \<leftarrow> new_storage c;
     b \<leftarrow> s_IsCreated B s;
     is_False b;
     State_Monad.return Returned
   }"

definition test_created :: "('h, 'w) Func" where
  "test_created X B c l = do {
     s \<leftarrow> new_storage c;
     e \<leftarrow> s_Create B s;
     is_NoError e;
     b \<leftarrow> s_IsCreated B s;
     is_True b;
     State_Monad.return Returned
   }"

definition test_not_usable_before_created :: "('h, 'w) Func" where
  "test_not_usable_before_created X B c l = do {
     s \<leftarrow> new_storage c;
     u \<leftarrow> NewUnit X [];
     e \<leftarrow> s_SaveUnit B s (Some u);
     is_Error e;
     e \<leftarrow> s_RemoveUnit B s (Some u);
     is_Error e;
     (u, e) \<leftarrow> s_LoadUnit B s ''123'';
     is_Error e;
     is_Nil u;
     State_Monad.return Returned
   }"

definition test_removed_if_not_created :: "('h, 'w) Func" where
  "test_removed_if_not_created X B c l = do {
     s \<leftarrow> new_storage c;
     e \<leftarrow> s_Remove B s;
     is_NoError e;
     State_Monad.return Returned
   }"

definition test_removed_if_created :: "('h, 'w) Func" where
  "test_removed_if_created X B c l = do {
     s \<leftarrow> new_storage c;
     e \<leftarrow> s_Create B s;
     is_NoError e;
     e \<leftarrow> s_Remove B s;
     is_NoError e;
     State_Monad.return Returned
   }"

definition test_not_created_when_removed :: "('h, 'w) Func" where
  "test_not_created_when_removed X B c l = do {
     s \<leftarrow> new_storage c;
     e \<leftarrow> s_Create B s;
     is_NoError e;
     e \<leftarrow> s_Remove B s;
     is_NoError e;
     s2 \<leftarrow> new_storage c;
     b \<leftarrow> s_IsCreated B s2;
     is_False b;
     State_Monad.return Returned
   }"

text \<open>
  The body of the nested sub-test of the seventh scenario, for the unit \<open>u\<close> of the
  loop. The loaded unit is named \<open>lu\<close> here (the source names it \<^verbatim>\<open>l\<close>, shadowing the
  factory). \<^verbatim>\<open>l.ID()\<close> on a nil unit is a call on a nil interface value: it panics,
  after the assertion on \<^verbatim>\<open>RemoveUnit\<close> has been made.
\<close>

definition simple_unit_subtest ::
  "unit_pkg \<Rightarrow> ('h, 'w) Interface \<Rightarrow> ('h, 'w) CreateFunc \<Rightarrow> Unit \<Rightarrow> ('h, 'w) test" where
  "simple_unit_subtest X B c u = do {
     s \<leftarrow> new_storage c;
     e \<leftarrow> s_Create B s;
     is_NoError e;
     e \<leftarrow> s_SaveUnit B s (Some u);
     is_NoError e;
     (lu, e) \<leftarrow> s_LoadUnit B s (ID u);
     is_NoError e;
     is_True (Equal X (Some u) lu);
     e \<leftarrow> s_RemoveUnit B s lu;
     is_NoError e;
     (case lu of
        None \<Rightarrow> State_Monad.return Panicked
      | Some v \<Rightarrow> do {
          (r, e) \<leftarrow> s_LoadUnit B s (ID v);
          is_Error e;
          is_Nil r;
          State_Monad.return Returned
        })
   }"

text \<open>
  The loop \<^verbatim>\<open>for _, u := range unitsTests\<close>: one sub-test per unit, named by the
  printed type tag; a panic ends the loop.
\<close>

primrec range_unitsTests ::
  "unit_pkg \<Rightarrow> ('h, 'w) Interface \<Rightarrow> ('h, 'w) CreateFunc \<Rightarrow> Unit list \<Rightarrow>
   ('h, 'w) tstate \<Rightarrow> ctl \<times> ('h, 'w) tstate" where
  "range_unitsTests X B c [] st = (Returned, st)"
| "range_unitsTests X B c (u # us) st =
     (case run_state (Run (TypeString X (Type u)) (simple_unit_subtest X B c u)) st of
        (r, st') \<Rightarrow> if r = Panicked then (Panicked, st') else range_unitsTests X B c us st')"

definition test_simple_unit_types :: "('h, 'w) Func" where
  "test_simple_unit_types X B c l = do {
     unitUnit \<leftarrow> NewUnit X [OptionTitle ''MyUnit''];
     unitTextPlain \<leftarrow> NewTextPlain X [OptionTitle ''MyUnit'', OptionTextPlainData ''MyData''];
     unitTextMarkdown \<leftarrow>
       NewTextMarkdown X [OptionTitle ''MyUnit'', OptionTextMarkdownData ''MyData''];
     unitTextCode \<leftarrow>
       NewTextCode X [OptionTitle ''MyUnit'', OptionTextCodeData ''MyData'',
                      OptionTextCodeLanguage ''MyLang''];
     unitTodo \<leftarrow> NewTodo X [OptionTitle ''MyUnit''];
     let t1 = NewItem unitTodo;
     let t1 = SetData ''Data1'' t1;
     let t1 = SetDone True t1;
     let t2 = NewItem unitTodo;
     let t2 = SetData ''Data2'' t2;
     let t2 = SetDone False t2;
     let unitTodo = Todo_SetItems [t1, t2] unitTodo;
     let unitsTests = [unitUnit, unitTextPlain, unitTextMarkdown, unitTextCode, unitTodo];
     State (range_unitsTests X B c unitsTests)
   }"

definition test_list_unit :: "('h, 'w) Func" where
  "test_list_unit X B c l = do {
     unitUnit \<leftarrow> NewUnit X [OptionTitle ''MyUnit''];
     unitTextPlain \<leftarrow> NewTextPlain X [OptionTitle ''MyUnit'', OptionTextPlainData ''MyData''];
     unitTextMarkdown \<leftarrow>
       NewTextMarkdown X [OptionTitle ''MyUnit'', OptionTextMarkdownData ''MyData''];
     unitTextCode \<leftarrow>
       NewTextCode X [OptionTitle ''MyUnit'', OptionTextCodeData ''MyData'',
                      OptionTextCodeLanguage ''MyLang''];
     unitTodo \<leftarrow> NewTodo X [OptionTitle ''MyUnit''];
     let t1 = NewItem unitTodo;
     let t1 = SetData ''Data1'' t1;
     let t1 = SetDone True t1;
     let t2 = NewItem unitTodo;
     let t2 = SetData ''Data2'' t2;
     let t2 = SetDone False t2;
     let unitTodo = Todo_SetItems [t1, t2] unitTodo;
     unitList \<leftarrow> NewList X [OptionTitle ''MyUnit''];
     let unitList =
       List_SetItems [unitUnit, unitTextPlain, unitTextMarkdown, unitTextCode, unitTodo] unitList;
     s \<leftarrow> new_storage c;
     e \<leftarrow> s_Create B s;
     is_NoError e;
     e \<leftarrow> s_SaveUnit B s (Some unitUnit);
     is_NoError e;
     e \<leftarrow> s_SaveUnit B s (Some unitTextPlain);
     is_NoError e;
     e \<leftarrow> s_SaveUnit B s (Some unitTextMarkdown);
     is_NoError e;
     e \<leftarrow> s_SaveUnit B s (Some unitTextCode);
     is_NoError e;
     e \<leftarrow> s_SaveUnit B s (Some unitTodo);
     is_NoError e;
     e \<leftarrow> s_SaveUnit B s (Some unitList);
     is_NoError e;
     (lu, e) \<leftarrow> s_LoadUnit B s (ID unitList);
     is_NoError e;
     is_True (Equal X (Some unitList) lu);
     e \<leftarrow> s_RemoveUnit B s lu;
     is_NoError e;
     (case lu of
        None \<Rightarrow> State_Monad.return Panicked
      | Some v \<Rightarrow> do {
          (r, e) \<leftarrow> s_LoadUnit B s (ID v);
          is_Error e;
          is_Nil r;
          State_Monad.return Returned
        })
   }"

definition test_nil_unit_not_saved :: "('h, 'w) Func" where
  "test_nil_unit_not_saved X B c l = do {
     s \<leftarrow> new_storage c;
     e \<leftarrow> s_Create B s;
     is_NoError e;
     e \<leftarrow> s_SaveUnit B s None;
     is_Error e;
     State_Monad.return Returned
   }"

definition test_nil_unit_not_removed :: "('h, 'w) Func" where
  "test_nil_unit_not_removed X B c l = do {
     s \<leftarrow> new_storage c;
     e \<leftarrow> s_Create B s;
     is_NoError e;
     e \<leftarrow> s_RemoveUnit B s None;
     is_Error e;
     State_Monad.return Returned
   }"

definition test_empty_id_not_loaded :: "('h, 'w) Func" where
  "test_empty_id_not_loaded X B c l = do {
     s \<leftarrow> new_storage c;
     e \<leftarrow> s_Create B s;
     is_NoError e;
     (lu, e) \<leftarrow> s_LoadUnit B s [];
     is_Error e;
     is_Nil lu;
     State_Monad.return Returned
   }"

text \<open>
  The last scenario. \<^verbatim>\<open>sl.LoadUnit\<close> on a nil instance panics, after the assertions
  on the result of \<open>l\<close> have been made.
\<close>

definition test_config_serialized :: "('h, 'w) Func" where
  "test_config_serialized X B c l =
     (case l of
        None \<Rightarrow> SkipNow
      | Some lf \<Rightarrow> do {
          u \<leftarrow> NewTextPlain X [OptionTitle ''MyUnit'', OptionTextPlainData ''MyData''];
          s \<leftarrow> new_storage c;
          e \<leftarrow> s_Create B s;
          is_NoError e;
          e \<leftarrow> s_SaveUnit B s (Some u);
          is_NoError e;
          (config, err) \<leftarrow> json_Marshal B s;
          is_NoError err;
          is_NotNil config;
          (sl, err) \<leftarrow> load_config lf config;
          is_NoError err;
          is_NotNil sl;
          (case sl of
             None \<Rightarrow> State_Monad.return Panicked
           | Some sv \<Rightarrow> do {
               (lu, err) \<leftarrow> s_LoadUnit B sv (ID u);
               is_NoError err;
               is_NotNil lu;
               is_True (Equal X (Some u) lu);
               State_Monad.return Returned
             })
        })"

record ('h, 'w) test_case =
  title :: string
  testFunc :: "('h, 'w) Func"

definition tests :: "('h, 'w) test_case list" where
  "tests = [
     \<lparr>title = ''Storage is not created initially when initialized first time with given arguments'',
      testFunc = test_not_created_initially\<rparr>,
     \<lparr>title = ''Storage can be successfully created'',
      testFunc = test_created\<rparr>,
     \<lparr>title = ''Storage can not be used before it will be created'',
      testFunc = test_not_usable_before_created\<rparr>,
     \<lparr>title = ''Storage can be removed if not created before'',
      testFunc = test_removed_if_not_created\<rparr>,
     \<lparr>title = ''Storage can be removed if was created before'',
      testFunc = test_removed_if_created\<rparr>,
     \<lparr>title = ''Storage is not created when removed'',
      testFunc = test_not_created_when_removed\<rparr>,
     \<lparr>title = ''Storage can handle all supported simple unit types'',
      testFunc = test_simple_unit_types\<rparr>,
     \<lparr>title = ''Storage can handle list unit'',
      testFunc = test_list_unit\<rparr>,
     \<lparr>title = ''Nil unit cannot be saved'',
      testFunc = test_nil_unit_not_saved\<rparr>,
     \<lparr>title = ''Nil unit cannot be removed'',
      testFunc = test_nil_unit_not_removed\<rparr>,
     \<lparr>title = ''Empty ID cannot be used to load unit'',
      testFunc = test_empty_id_not_loaded\<rparr>,
     \<lparr>title = ''Directory config can be JSON serialized/deserialized '',
      testFunc = test_config_serialized\<rparr>
   ]"

section \<open>The runner\<close>

text \<open>
  \<^verbatim>\<open>RunStorageTests\<close>: one \<^verbatim>\<open>t.Run\<close> per entry of the catalogue, in order, each on the
  same factories.
\<close>

primrec range_tests ::
  "unit_pkg \<Rightarrow> ('h, 'w) Interface \<Rightarrow> ('h, 'w) CreateFunc \<Rightarrow>
   ('h, 'w) LoadFromConfigFunc option \<Rightarrow> ('h, 'w) test_case list \<Rightarrow>
   ('h, 'w) tstate \<Rightarrow> ctl \<times> ('h, 'w) tstate" where
  "range_tests X B c l [] st = (Returned, st)"
| "range_tests X B c l (test # rest) st =
     (case run_state (Run (title test) (testFunc test X B c l)) st of
        (r, st') \<Rightarrow> if r = Panicked then (Panicked, st') else range_tests X B c l rest st')"

definition RunStorageTests :: "('h, 'w) Func" where
  "RunStorageTests X B c l = State (range_tests X B c l tests)"

text \<open>
  The outcome of a test function run as a test of its own: the verdict on a run that
  starts on a fresh context.
\<close>

definition outcome :: "('h, 'w) test \<Rightarrow> ('h, 'w) tstate \<Rightarrow> status" where
  "outcome f st =
     (case run_state f (st\<lparr>failed := False, skipped := False, subtests := []\<rparr>) of
        (r, st') \<Rightarrow> verdict r st')"

section \<open>Two implementations to run the suite on\<close>

text \<open>
  An in-memory implementation of the contract, to evaluate the suite on. The backing
  state is the list of the instances made so far, a handle is an index into it, and the
  factory appends an instance that is not created. The parameter \<open>usable\<close> says in
  which states the unit operations are served.
\<close>

record mem_inst =
  created :: bool
  removed :: bool
  units :: "(ident \<times> Unit) list"

type_synonym mem_world = "mem_inst list"

definition mem_create :: "(nat, mem_world) CreateFunc" where
  "mem_create w = (length w, w @ [\<lparr>created = False, removed = False, units = []\<rparr>])"

definition on_inst :: "nat \<Rightarrow> 'a \<Rightarrow> (mem_inst \<Rightarrow> 'a \<times> mem_inst) \<Rightarrow> mem_world \<Rightarrow> 'a \<times> mem_world" where
  "on_inst h d f w =
     (if h < length w then (case f (w ! h) of (r, i) \<Rightarrow> (r, w[h := i])) else (d, w))"

definition mem_SaveUnit :: "(mem_inst \<Rightarrow> bool) \<Rightarrow> Unit option \<Rightarrow> mem_inst \<Rightarrow> error option \<times> mem_inst" where
  "mem_SaveUnit usable u i =
     (if \<not> usable i then (Some (Err ''storage is not created''), i)
      else case u of
        None \<Rightarrow> (Some (Err ''unit is nil''), i)
      | Some v \<Rightarrow> (None, i\<lparr>units := (ID v, v) # filter (\<lambda>p. fst p \<noteq> ID v) (units i)\<rparr>))"

definition mem_RemoveUnit :: "(mem_inst \<Rightarrow> bool) \<Rightarrow> Unit option \<Rightarrow> mem_inst \<Rightarrow> error option \<times> mem_inst" where
  "mem_RemoveUnit usable u i =
     (if \<not> usable i then (Some (Err ''storage is not created''), i)
      else case u of
        None \<Rightarrow> (Some (Err ''unit is nil''), i)
      | Some v \<Rightarrow>
          (case map_of (units i) (ID v) of
             None \<Rightarrow> (Some (Err ''unit not found''), i)
           | Some x \<Rightarrow> (None, i\<lparr>units := filter (\<lambda>p. fst p \<noteq> ID v) (units i)\<rparr>)))"

definition mem_LoadUnit ::
  "(mem_inst \<Rightarrow> bool) \<Rightarrow> ident \<Rightarrow> mem_inst \<Rightarrow> (Unit option \<times> error option) \<times> mem_inst" where
  "mem_LoadUnit usable k i =
     (if \<not> usable i then ((None, Some (Err ''storage is not created'')), i)
      else if k = [] then ((None, Some (Err ''empty identifier'')), i)
      else case map_of (units i) k of
        None \<Rightarrow> ((None, Some (Err ''unit not found'')), i)
      | Some v \<Rightarrow> ((Some v, None), i))"

definition mem_storage :: "(mem_inst \<Rightarrow> bool) \<Rightarrow> (nat, mem_world) Interface" where
  "mem_storage usable = \<lparr>
     Create = (\<lambda>h. on_inst h (Some (Err ''no such instance''))
                 (\<lambda>i. (None, i\<lparr>created := True, removed := False\<rparr>))),
     IsCreated = (\<lambda>h. on_inst h False (\<lambda>i. (created i, i))),
     Remove = (\<lambda>h. on_inst h (Some (Err ''no such instance''))
                 (\<lambda>i. (None, i\<lparr>created := False, removed := created i \<or> removed i\<rparr>))),
     SaveUnit = (\<lambda>h u. on_inst h (Some (Err ''no such instance'')) (mem_SaveUnit usable u)),
     RemoveUnit = (\<lambda>h u. on_inst h (Some (Err ''no such instance'')) (mem_RemoveUnit usable u)),
     LoadUnit = (\<lambda>h k. on_inst h (None, Some (Err ''no such instance'')) (mem_LoadUnit usable k)),
     Marshal = (\<lambda>h w. ((Some (replicate h (CHR ''i'')), None), w))
   \<rparr>"

definition mem_load :: "(nat, mem_world) LoadFromConfigFunc" where
  "mem_load config w =
     (case config of
        None \<Rightarrow> ((None, Some (Err ''no configuration'')), w)
      | Some b \<Rightarrow>
          if length b < length w then ((Some (length b), None), w)
          else ((None, Some (Err ''no such instance'')), w))"

text \<open>
  \<open>strict_storage\<close> serves unit operations on a created instance only.
  \<open>lenient_storage\<close> also serves them on an instance that was created and then removed:
  its units stay in place and stay reachable.
\<close>

definition strict_storage :: "(nat, mem_world) Interface" where
  "strict_storage = mem_storage created"

definition lenient_storage :: "(nat, mem_world) Interface" where
  "lenient_storage = mem_storage (\<lambda>i. created i \<or> removed i)"

text \<open>
  A unit library to evaluate with: equality of the fixture values, the type tags printed
  by name, and identifiers \<open>u\<close>, \<open>u0\<close>, \<open>u00\<close>, ...
\<close>

fun type_name :: "UnitType \<Rightarrow> string" where
  "type_name TypeUnit = ''unit''"
| "type_name TypeTextPlain = ''text_plain''"
| "type_name TypeTextMarkdown = ''text_markdown''"
| "type_name TypeTextCode = ''text_code''"
| "type_name TypeTodo = ''todo''"
| "type_name TypeList = ''list''"

definition std_pkg :: unit_pkg where
  "std_pkg = \<lparr>Equal = (\<lambda>a b. a = b), TypeString = type_name,
              newID = (\<lambda>n. CHR ''u'' # replicate n (CHR ''0''))\<rparr>"

definition start :: "(nat, mem_world) tstate" where
  "start = \<lparr>world = [], next_id = 0, trace = [], failed = False, skipped = False, subtests = []\<rparr>"

text \<open>
  The names of the nested sub-tests that a scenario of the catalogue registers: the
  seventh scenario registers one per fixture unit, no other scenario calls \<^verbatim>\<open>t.Run\<close>.
\<close>

definition nested_names :: "unit_pkg \<Rightarrow> ('h, 'w) test_case \<Rightarrow> string list" where
  "nested_names X t =
     (if title t = ''Storage can handle all supported simple unit types''
      then map (TypeString X) [TypeUnit, TypeTextPlain, TypeTextMarkdown, TypeTextCode, TypeTodo]
      else [])"

section \<open>Running the primitives\<close>

lemma run_new_storage [simp]:
  "run_state (new_storage c) st =
     (case c (world st) of (s, w) \<Rightarrow> (s, log (CallCreateFunc s) (st\<lparr>world := w\<rparr>)))"
  by (simp add: new_storage_def)

lemma run_call [simp]:
  "run_state (call ev f) st = (case f (world st) of (r, w) \<Rightarrow> (r, log ev (st\<lparr>world := w\<rparr>)))"
  by (simp add: call_def)

lemma run_check [simp]:
  "run_state (check ok) st = ((), log (Assertion ok) (st\<lparr>failed := failed st \<or> \<not> ok\<rparr>))"
  by (simp add: check_def)

lemma run_fresh_id [simp]:
  "run_state (fresh_id X) st = (newID X (next_id st), st\<lparr>next_id := Suc (next_id st)\<rparr>)"
  by (simp add: fresh_id_def)

lemma run_SkipNow [simp]: "run_state SkipNow st = (Exited, st\<lparr>skipped := True\<rparr>)"
  by (simp add: SkipNow_def)

lemma log_simps [simp]:
  "world (log ev st) = world st" "next_id (log ev st) = next_id st"
  "trace (log ev st) = trace st @ [ev]" "failed (log ev st) = failed st"
  "skipped (log ev st) = skipped st" "subtests (log ev st) = subtests st"
  by (simp_all add: log_def)

lemma Run_result:
  "run_state (Run name f) st =
     (case run_state f (st\<lparr>failed := False, skipped := False, subtests := []\<rparr>) of
        (r, st') \<Rightarrow>
          (if r = Panicked then Panicked else Returned,
           st'\<lparr>failed := failed st \<or> verdict r st' = Failed, skipped := skipped st,
               subtests := subtests st @ [Report name (verdict r st') (subtests st')]\<rparr>))"
  by (simp add: Run_def)

text \<open>The report that \<^verbatim>\<open>t.Run\<close> appends carries the outcome of the test function.\<close>

lemma Run_reports_outcome:
  "subtests (snd (run_state (Run name f) st)) \<noteq> [] \<and>
   report_name (last (subtests (snd (run_state (Run name f) st)))) = name \<and>
   report_status (last (subtests (snd (run_state (Run name f) st)))) = outcome f st"
  by (simp add: Run_result outcome_def split_beta)

lemmas storage_calls =
  s_Create_def s_IsCreated_def s_Remove_def s_SaveUnit_def s_RemoveUnit_def s_LoadUnit_def
  json_Marshal_def load_config_def

lemmas assertions =
  is_NoError_def is_Error_def is_True_def is_False_def is_Nil_def is_NotNil_def

lemmas constructors =
  NewUnit_def NewTextPlain_def NewTextMarkdown_def NewTextCode_def NewTodo_def NewList_def
  apply_options_def NewItem_def SetData_def SetDone_def

lemmas scenario_defs =
  test_not_created_initially_def test_created_def test_not_usable_before_created_def
  test_removed_if_not_created_def test_removed_if_created_def test_not_created_when_removed_def
  test_list_unit_def test_nil_unit_not_saved_def test_nil_unit_not_removed_def
  test_empty_id_not_loaded_def test_config_serialized_def

lemmas mem_defs =
  strict_storage_def lenient_storage_def mem_storage_def mem_create_def mem_load_def
  on_inst_def mem_SaveUnit_def mem_RemoveUnit_def mem_LoadUnit_def std_pkg_def start_def

section \<open>Unit operations before creation (scenario three)\<close>

text \<open>
  Claim C4, as the suite has it. The third scenario takes a fresh instance from the
  factory, calls neither \<^verbatim>\<open>Create\<close> nor \<^verbatim>\<open>Remove\<close> on it, and requires each unit
  operation to fail there: it passes exactly when \<^verbatim>\<open>SaveUnit\<close> and \<^verbatim>\<open>RemoveUnit\<close> of
  a new plain unit return an error and \<^verbatim>\<open>LoadUnit\<close> of the identifier \<^verbatim>\<open>"123"\<close>
  returns an error and no unit. These are all the calls the scenario makes.
\<close>

theorem not_usable_before_created:
  assumes "u = PlainUnit (newID X (next_id st)) []"
    and "c (world st) = (s, w1)"
    and "SaveUnit B s (Some u) w1 = (e1, w2)"
    and "RemoveUnit B s (Some u) w2 = (e2, w3)"
    and "LoadUnit B s ''123'' w3 = ((r, e3), w4)"
  shows "(outcome (test_not_usable_before_created X B c l) st = Passed \<longleftrightarrow>
           e1 \<noteq> None \<and> e2 \<noteq> None \<and> e3 \<noteq> None \<and> r = None) \<and>
         trace (snd (run_state (test_not_usable_before_created X B c l) st)) =
           trace st @ [CallCreateFunc s,
             CallSaveUnit s (Some u), Assertion (e1 \<noteq> None),
             CallRemoveUnit s (Some u), Assertion (e2 \<noteq> None),
             CallLoadUnit s ''123'', Assertion (e3 \<noteq> None), Assertion (r = None)]"
  using assms
  by (simp add: outcome_def verdict_def test_not_usable_before_created_def NewUnit_def
      apply_options_def storage_calls assertions)

text \<open>The in-memory storage refuses the three operations on a fresh instance.\<close>

theorem not_usable_before_created_witness:
  "outcome (test_not_usable_before_created std_pkg strict_storage mem_create None) start = Passed"
proof -
  have 0: "PlainUnit ''u'' [] = PlainUnit (newID std_pkg (next_id start)) []"
    by (simp add: mem_defs)
  have 1: "mem_create (world start) = (0, [\<lparr>created = False, removed = False, units = []\<rparr>])"
    by (simp add: mem_defs)
  have 2: "SaveUnit strict_storage 0 (Some (PlainUnit ''u'' []))
      [\<lparr>created = False, removed = False, units = []\<rparr>] =
      (Some (Err ''storage is not created''), [\<lparr>created = False, removed = False, units = []\<rparr>])"
    by (simp add: mem_defs)
  have 3: "RemoveUnit strict_storage 0 (Some (PlainUnit ''u'' []))
      [\<lparr>created = False, removed = False, units = []\<rparr>] =
      (Some (Err ''storage is not created''), [\<lparr>created = False, removed = False, units = []\<rparr>])"
    by (simp add: mem_defs)
  have 4: "LoadUnit strict_storage 0 ''123'' [\<lparr>created = False, removed = False, units = []\<rparr>] =
      ((None, Some (Err ''storage is not created'')),
       [\<lparr>created = False, removed = False, units = []\<rparr>])"
    by (simp add: mem_defs)
  from not_usable_before_created [where c = mem_create and st = start, OF 0 1 2 3 4]
  show ?thesis
    by simp
qed

text \<open>
  No scenario of the catalogue calls a unit operation on an instance that was removed, so
  the suite does not require these operations to fail there. \<open>lenient_storage\<close> passes
  every scenario of a full run, and on an instance that was created and then removed it
  reports \<^verbatim>\<open>IsCreated\<close> false and still saves, loads and removes a unit without error.
\<close>

theorem removed_state_not_exercised_counterexample:
  "map report_status (subtests (snd
     (run_state (RunStorageTests std_pkg lenient_storage mem_create (Some mem_load)) start))) =
     [Passed, Passed, Passed, Passed, Passed, Passed, Passed, Passed, Passed, Passed, Passed,
      Passed] \<and>
   (Create lenient_storage 0 [\<lparr>created = False, removed = False, units = []\<rparr>] =
     (None, [\<lparr>created = True, removed = False, units = []\<rparr>]) \<and>
   Remove lenient_storage 0 [\<lparr>created = True, removed = False, units = []\<rparr>] =
     (None, [\<lparr>created = False, removed = True, units = []\<rparr>]) \<and>
   IsCreated lenient_storage 0 [\<lparr>created = False, removed = True, units = []\<rparr>] =
     (False, [\<lparr>created = False, removed = True, units = []\<rparr>]) \<and>
   SaveUnit lenient_storage 0 (Some (PlainUnit ''u'' []))
       [\<lparr>created = False, removed = True, units = []\<rparr>] =
     (None, [\<lparr>created = False, removed = True, units = [(''u'', PlainUnit ''u'' [])]\<rparr>]) \<and>
   LoadUnit lenient_storage 0 ''u''
       [\<lparr>created = False, removed = True, units = [(''u'', PlainUnit ''u'' [])]\<rparr>] =
     ((Some (PlainUnit ''u'' []), None),
      [\<lparr>created = False, removed = True, units = [(''u'', PlainUnit ''u'' [])]\<rparr>]) \<and>
   RemoveUnit lenient_storage 0 (Some (PlainUnit ''u'' []))
       [\<lparr>created = False, removed = True, units = [(''u'', PlainUnit ''u'' [])]\<rparr>] =
     (None, [\<lparr>created = False, removed = True, units = []\<rparr>]))"
proof (rule conjI)
  show "map report_status (subtests (snd
     (run_state (RunStorageTests std_pkg lenient_storage mem_create (Some mem_load)) start))) =
     [Passed, Passed, Passed, Passed, Passed, Passed, Passed, Passed, Passed, Passed, Passed,
      Passed]"
    by code_simp
next
  show "Create lenient_storage 0 [\<lparr>created = False, removed = False, units = []\<rparr>] =
     (None, [\<lparr>created = True, removed = False, units = []\<rparr>]) \<and>
   Remove lenient_storage 0 [\<lparr>created = True, removed = False, units = []\<rparr>] =
     (None, [\<lparr>created = False, removed = True, units = []\<rparr>]) \<and>
   IsCreated lenient_storage 0 [\<lparr>created = False, removed = True, units = []\<rparr>] =
     (False, [\<lparr>created = False, removed = True, units = []\<rparr>]) \<and>
   SaveUnit lenient_storage 0 (Some (PlainUnit ''u'' []))
       [\<lparr>created = False, removed = True, units = []\<rparr>] =
     (None, [\<lparr>created = False, removed = True, units = [(''u'', PlainUnit ''u'' [])]\<rparr>]) \<and>
   LoadUnit lenient_storage 0 ''u''
       [\<lparr>created = False, removed = True, units = [(''u'', PlainUnit ''u'' [])]\<rparr>] =
     ((Some (PlainUnit ''u'' []), None),
      [\<lparr>created = False, removed = True, units = [(''u'', PlainUnit ''u'' [])]\<rparr>]) \<and>
   RemoveUnit lenient_storage 0 (Some (PlainUnit ''u'' []))
       [\<lparr>created = False, removed = True, units = [(''u'', PlainUnit ''u'' [])]\<rparr>] =
     (None, [\<lparr>created = False, removed = True, units = []\<rparr>])"
    by (simp add: mem_defs)
qed

section \<open>Removal of the storage (scenarios four to six)\<close>

text \<open>
  Claim C8. For every instance \<open>s\<close> that the factory returns, the suite requires
  \<^verbatim>\<open>Remove\<close> to return no error both when the instance was never created and when it
  was created first: the fourth scenario passes exactly when \<^verbatim>\<open>Remove\<close> on the fresh
  instance returns no error, and the fifth exactly when \<^verbatim>\<open>Create\<close> and then
  \<^verbatim>\<open>Remove\<close> both return no error.
\<close>

theorem remove_required_to_succeed:
  assumes "c (world st) = (s, w1)"
    and "Remove B s w1 = (e, w2)"
    and "Create B s w1 = (e1, w3)"
    and "Remove B s w3 = (e2, w4)"
  shows "(outcome (test_removed_if_not_created X B c l) st = Passed \<longleftrightarrow> e = None) \<and>
         (outcome (test_removed_if_created X B c l) st = Passed \<longleftrightarrow> e1 = None \<and> e2 = None)"
  using assms
  by (simp add: outcome_def verdict_def test_removed_if_not_created_def
      test_removed_if_created_def storage_calls assertions)

text \<open>The in-memory storage passes both scenarios.\<close>

theorem remove_required_to_succeed_witness:
  "outcome (test_removed_if_not_created std_pkg strict_storage mem_create None) start = Passed \<and>
   outcome (test_removed_if_created std_pkg strict_storage mem_create None) start = Passed"
proof -
  have 1: "mem_create (world start) = (0, [\<lparr>created = False, removed = False, units = []\<rparr>])"
    by (simp add: mem_defs)
  have 2: "Remove strict_storage 0 [\<lparr>created = False, removed = False, units = []\<rparr>] =
      (None, [\<lparr>created = False, removed = False, units = []\<rparr>])"
    by (simp add: mem_defs)
  have 3: "Create strict_storage 0 [\<lparr>created = False, removed = False, units = []\<rparr>] =
      (None, [\<lparr>created = True, removed = False, units = []\<rparr>])"
    by (simp add: mem_defs)
  have 4: "Remove strict_storage 0 [\<lparr>created = True, removed = False, units = []\<rparr>] =
      (None, [\<lparr>created = False, removed = True, units = []\<rparr>])"
    by (simp add: mem_defs)
  from remove_required_to_succeed [where c = mem_create and st = start, OF 1 2 3 4]
  show ?thesis
    by simp
qed

text \<open>
  Claim C7. In the sixth scenario one instance is created and removed, and then a second
  instance is taken from the same factory: the scenario passes exactly when \<^verbatim>\<open>Create\<close>
  and \<^verbatim>\<open>Remove\<close> on the first instance return no error and \<^verbatim>\<open>IsCreated\<close> on the
  second instance, in the backing state the removal left, is false.
\<close>

theorem not_created_when_removed:
  assumes "c (world st) = (s, w1)"
    and "Create B s w1 = (e1, w2)"
    and "Remove B s w2 = (e2, w3)"
    and "c w3 = (s2, w4)"
    and "IsCreated B s2 w4 = (b, w5)"
  shows "(outcome (test_not_created_when_removed X B c l) st = Passed \<longleftrightarrow>
            e1 = None \<and> e2 = None \<and> \<not> b) \<and>
         trace (snd (run_state (test_not_created_when_removed X B c l) st)) =
           trace st @ [CallCreateFunc s, CallCreate s, Assertion (e1 = None),
             CallRemove s, Assertion (e2 = None),
             CallCreateFunc s2, CallIsCreated s2, Assertion (\<not> b)]"
  using assms
  by (simp add: outcome_def verdict_def test_not_created_when_removed_def storage_calls assertions)

text \<open>On the in-memory storage the second instance is another one, and is not created.\<close>

theorem not_created_when_removed_witness:
  "outcome (test_not_created_when_removed std_pkg strict_storage mem_create None) start = Passed \<and>
   trace (snd (run_state (test_not_created_when_removed std_pkg strict_storage mem_create None)
     start)) =
     [CallCreateFunc 0, CallCreate 0, Assertion True, CallRemove 0, Assertion True,
      CallCreateFunc 1, CallIsCreated 1, Assertion True]"
proof -
  have 1: "mem_create (world start) = (0, [\<lparr>created = False, removed = False, units = []\<rparr>])"
    by (simp add: mem_defs)
  have 2: "Create strict_storage 0 [\<lparr>created = False, removed = False, units = []\<rparr>] =
      (None, [\<lparr>created = True, removed = False, units = []\<rparr>])"
    by (simp add: mem_defs)
  have 3: "Remove strict_storage 0 [\<lparr>created = True, removed = False, units = []\<rparr>] =
      (None, [\<lparr>created = False, removed = True, units = []\<rparr>])"
    by (simp add: mem_defs)
  have 4: "mem_create [\<lparr>created = False, removed = True, units = []\<rparr>] =
      (1, [\<lparr>created = False, removed = True, units = []\<rparr>,
           \<lparr>created = False, removed = False, units = []\<rparr>])"
    by (simp add: mem_defs)
  have 5: "IsCreated strict_storage 1
      [\<lparr>created = False, removed = True, units = []\<rparr>,
       \<lparr>created = False, removed = False, units = []\<rparr>] =
      (False, [\<lparr>created = False, removed = True, units = []\<rparr>,
               \<lparr>created = False, removed = False, units = []\<rparr>])"
    by (simp add: mem_defs)
  have 6: "trace start = []"
    by (simp add: start_def)
  from not_created_when_removed [where c = mem_create and st = start, OF 1 2 3 4 5] 6
  show ?thesis
    by simp
qed

section \<open>Nil units and the empty identifier (scenarios nine to eleven)\<close>

text \<open>
  Claim C9. On an instance that was created, the suite requires \<^verbatim>\<open>SaveUnit(nil)\<close> and
  \<^verbatim>\<open>RemoveUnit(nil)\<close> to return an error and \<^verbatim>\<open>LoadUnit("")\<close> to return an error and
  no unit: each of the three scenarios passes exactly when \<^verbatim>\<open>Create\<close> returns no error
  and its operation fails in this way.
\<close>

theorem nil_and_empty_rejected:
  assumes "c (world st) = (s, w1)"
    and "Create B s w1 = (e1, w2)"
    and "SaveUnit B s None w2 = (e2, w3)"
    and "RemoveUnit B s None w2 = (e3, w4)"
    and "LoadUnit B s [] w2 = ((lu, e4), w5)"
  shows "(outcome (test_nil_unit_not_saved X B c l) st = Passed \<longleftrightarrow> e1 = None \<and> e2 \<noteq> None) \<and>
         (outcome (test_nil_unit_not_removed X B c l) st = Passed \<longleftrightarrow> e1 = None \<and> e3 \<noteq> None) \<and>
         (outcome (test_empty_id_not_loaded X B c l) st = Passed \<longleftrightarrow>
            e1 = None \<and> e4 \<noteq> None \<and> lu = None)"
  using assms
  by (simp add: outcome_def verdict_def test_nil_unit_not_saved_def test_nil_unit_not_removed_def
      test_empty_id_not_loaded_def storage_calls assertions)

text \<open>The in-memory storage passes the three scenarios.\<close>

theorem nil_and_empty_rejected_witness:
  "outcome (test_nil_unit_not_saved std_pkg strict_storage mem_create None) start = Passed \<and>
   outcome (test_nil_unit_not_removed std_pkg strict_storage mem_create None) start = Passed \<and>
   outcome (test_empty_id_not_loaded std_pkg strict_storage mem_create None) start = Passed"
proof -
  have 1: "mem_create (world start) = (0, [\<lparr>created = False, removed = False, units = []\<rparr>])"
    by (simp add: mem_defs)
  have 2: "Create strict_storage 0 [\<lparr>created = False, removed = False, units = []\<rparr>] =
      (None, [\<lparr>created = True, removed = False, units = []\<rparr>])"
    by (simp add: mem_defs)
  have 3: "SaveUnit strict_storage 0 None [\<lparr>created = True, removed = False, units = []\<rparr>] =
      (Some (Err ''unit is nil''), [\<lparr>created = True, removed = False, units = []\<rparr>])"
    by (simp add: mem_defs)
  have 4: "RemoveUnit strict_storage 0 None [\<lparr>created = True, removed = False, units = []\<rparr>] =
      (Some (Err ''unit is nil''), [\<lparr>created = True, removed = False, units = []\<rparr>])"
    by (simp add: mem_defs)
  have 5: "LoadUnit strict_storage 0 [] [\<lparr>created = True, removed = False, units = []\<rparr>] =
      ((None, Some (Err ''empty identifier'')), [\<lparr>created = True, removed = False, units = []\<rparr>])"
    by (simp add: mem_defs)
  from nil_and_empty_rejected [where c = mem_create and st = start, OF 1 2 3 4 5]
  show ?thesis
    by simp
qed

section \<open>Round trips of units (scenarios seven and eight)\<close>


lemma test_simple_unit_types_unfold:
  "run_state (test_simple_unit_types X B c l) st =
     range_unitsTests X B c
       [PlainUnit (newID X (next_id st)) ''MyUnit'',
        TextPlain (newID X (next_id st + 1)) ''MyUnit'' ''MyData'',
        TextMarkdown (newID X (next_id st + 2)) ''MyUnit'' ''MyData'',
        TextCode (newID X (next_id st + 3)) ''MyUnit'' ''MyData'' ''MyLang'',
        Todo (newID X (next_id st + 4)) ''MyUnit''
          [\<lparr>Data = ''Data1'', Done = True\<rparr>, \<lparr>Data = ''Data2'', Done = False\<rparr>]]
       (st\<lparr>next_id := next_id st + 5\<rparr>)"
  by (simp add: test_simple_unit_types_def constructors Let_def eval_nat_numeral
      del: range_unitsTests.simps)



text \<open>
  Claim C2. The eighth scenario builds the same five units and a list unit holding
  exactly them, in this order, takes a fresh instance and passes exactly when
  \<^verbatim>\<open>Create\<close> returns no error, \<^verbatim>\<open>SaveUnit\<close> of each of the five children and then of
  the list returns no error, \<^verbatim>\<open>LoadUnit\<close> of the identifier of the list returns no
  error and a unit that the equality oracle accepts against the list, \<^verbatim>\<open>RemoveUnit\<close> of
  the loaded unit returns no error, and \<^verbatim>\<open>LoadUnit\<close> of the identifier of the loaded
  unit then returns an error and no unit.
\<close>

theorem list_unit_roundtrip:
  assumes "uu = PlainUnit (newID X (next_id st)) ''MyUnit''"
    and "tp = TextPlain (newID X (next_id st + 1)) ''MyUnit'' ''MyData''"
    and "tm = TextMarkdown (newID X (next_id st + 2)) ''MyUnit'' ''MyData''"
    and "tc = TextCode (newID X (next_id st + 3)) ''MyUnit'' ''MyData'' ''MyLang''"
    and "td = Todo (newID X (next_id st + 4)) ''MyUnit''
               [\<lparr>Data = ''Data1'', Done = True\<rparr>, \<lparr>Data = ''Data2'', Done = False\<rparr>]"
    and "ul = UnitList (newID X (next_id st + 5)) ''MyUnit'' [uu, tp, tm, tc, td]"
    and "c (world st) = (s, w0)"
    and "Create B s w0 = (e0, w1)"
    and "SaveUnit B s (Some uu) w1 = (e1, w2)"
    and "SaveUnit B s (Some tp) w2 = (e2, w3)"
    and "SaveUnit B s (Some tm) w3 = (e3, w4)"
    and "SaveUnit B s (Some tc) w4 = (e4, w5)"
    and "SaveUnit B s (Some td) w5 = (e5, w6)"
    and "SaveUnit B s (Some ul) w6 = (e6, w7)"
    and "LoadUnit B s (ID ul) w7 = ((lu, e7), w8)"
    and "RemoveUnit B s lu w8 = (e8, w9)"
  shows "outcome (test_list_unit X B c l) st = Passed \<longleftrightarrow>
           e0 = None \<and> e1 = None \<and> e2 = None \<and> e3 = None \<and> e4 = None \<and> e5 = None \<and>
           e6 = None \<and> e7 = None \<and> Equal X (Some ul) lu \<and> e8 = None \<and>
           (\<exists>v. lu = Some v \<and>
              (case LoadUnit B s (ID v) w9 of ((r, e9), w10) \<Rightarrow> e9 \<noteq> None \<and> r = None))"
  using assms
  by (cases lu)
     (auto simp add: outcome_def verdict_def test_list_unit_def constructors storage_calls
       assertions Let_def eval_nat_numeral split: prod.splits)

text \<open>The list scenario passes on the in-memory storage.\<close>

theorem list_unit_roundtrip_witness:
  "outcome (test_list_unit std_pkg strict_storage mem_create None) start = Passed"
proof -
  let ?uu = "PlainUnit ''u'' ''MyUnit''"
  let ?tp = "TextPlain ''u0'' ''MyUnit'' ''MyData''"
  let ?tm = "TextMarkdown ''u00'' ''MyUnit'' ''MyData''"
  let ?tc = "TextCode ''u000'' ''MyUnit'' ''MyData'' ''MyLang''"
  let ?td = "Todo ''u0000'' ''MyUnit''
        [\<lparr>Data = ''Data1'', Done = True\<rparr>, \<lparr>Data = ''Data2'', Done = False\<rparr>]"
  let ?ul = "UnitList ''u00000'' ''MyUnit'' [?uu, ?tp, ?tm, ?tc, ?td]"
  let ?w = "\<lambda>us. [\<lparr>created = True, removed = False, units = us\<rparr>]"
  have a: "?uu = PlainUnit (newID std_pkg (next_id start)) ''MyUnit''"
    by (simp add: mem_defs)
  have b: "?tp = TextPlain (newID std_pkg (next_id start + 1)) ''MyUnit'' ''MyData''"
    by (simp add: mem_defs)
  have c: "?tm = TextMarkdown (newID std_pkg (next_id start + 2)) ''MyUnit'' ''MyData''"
    by (simp add: mem_defs eval_nat_numeral)
  have d: "?tc = TextCode (newID std_pkg (next_id start + 3)) ''MyUnit'' ''MyData'' ''MyLang''"
    by (simp add: mem_defs eval_nat_numeral)
  have e: "?td = Todo (newID std_pkg (next_id start + 4)) ''MyUnit''
        [\<lparr>Data = ''Data1'', Done = True\<rparr>, \<lparr>Data = ''Data2'', Done = False\<rparr>]"
    by (simp add: mem_defs eval_nat_numeral)
  have f: "?ul = UnitList (newID std_pkg (next_id start + 5)) ''MyUnit'' [?uu, ?tp, ?tm, ?tc, ?td]"
    by (simp add: mem_defs eval_nat_numeral)
  have 1: "mem_create (world start) = (0, [\<lparr>created = False, removed = False, units = []\<rparr>])"
    by (simp add: mem_defs)
  have 2: "Create strict_storage 0 [\<lparr>created = False, removed = False, units = []\<rparr>] =
      (None, ?w [])"
    by (simp add: mem_defs)
  have 3: "SaveUnit strict_storage 0 (Some ?uu) (?w []) = (None, ?w [(''u'', ?uu)])"
    by (simp add: mem_defs)
  have 4: "SaveUnit strict_storage 0 (Some ?tp) (?w [(''u'', ?uu)]) =
      (None, ?w [(''u0'', ?tp), (''u'', ?uu)])"
    by (simp add: mem_defs)
  have 5: "SaveUnit strict_storage 0 (Some ?tm) (?w [(''u0'', ?tp), (''u'', ?uu)]) =
      (None, ?w [(''u00'', ?tm), (''u0'', ?tp), (''u'', ?uu)])"
    by (simp add: mem_defs)
  have 6: "SaveUnit strict_storage 0 (Some ?tc) (?w [(''u00'', ?tm), (''u0'', ?tp), (''u'', ?uu)]) =
      (None, ?w [(''u000'', ?tc), (''u00'', ?tm), (''u0'', ?tp), (''u'', ?uu)])"
    by (simp add: mem_defs)
  have 7: "SaveUnit strict_storage 0 (Some ?td)
        (?w [(''u000'', ?tc), (''u00'', ?tm), (''u0'', ?tp), (''u'', ?uu)]) =
      (None, ?w [(''u0000'', ?td), (''u000'', ?tc), (''u00'', ?tm), (''u0'', ?tp), (''u'', ?uu)])"
    by (simp add: mem_defs)
  have 8: "SaveUnit strict_storage 0 (Some ?ul)
        (?w [(''u0000'', ?td), (''u000'', ?tc), (''u00'', ?tm), (''u0'', ?tp), (''u'', ?uu)]) =
      (None, ?w [(''u00000'', ?ul), (''u0000'', ?td), (''u000'', ?tc), (''u00'', ?tm),
                 (''u0'', ?tp), (''u'', ?uu)])"
    by (simp add: mem_defs)
  have 9: "LoadUnit strict_storage 0 (ID ?ul)
        (?w [(''u00000'', ?ul), (''u0000'', ?td), (''u000'', ?tc), (''u00'', ?tm),
             (''u0'', ?tp), (''u'', ?uu)]) =
      ((Some ?ul, None),
       ?w [(''u00000'', ?ul), (''u0000'', ?td), (''u000'', ?tc), (''u00'', ?tm),
           (''u0'', ?tp), (''u'', ?uu)])"
    by (simp add: mem_defs)
  have 10: "RemoveUnit strict_storage 0 (Some ?ul)
        (?w [(''u00000'', ?ul), (''u0000'', ?td), (''u000'', ?tc), (''u00'', ?tm),
             (''u0'', ?tp), (''u'', ?uu)]) =
      (None, ?w [(''u0000'', ?td), (''u000'', ?tc), (''u00'', ?tm), (''u0'', ?tp), (''u'', ?uu)])"
    by (simp add: mem_defs)
  have 11: "LoadUnit strict_storage 0 (ID ?ul)
        (?w [(''u0000'', ?td), (''u000'', ?tc), (''u00'', ?tm), (''u0'', ?tp), (''u'', ?uu)]) =
      ((None, Some (Err ''unit not found'')),
       ?w [(''u0000'', ?td), (''u000'', ?tc), (''u00'', ?tm), (''u0'', ?tp), (''u'', ?uu)])"
    by (simp add: mem_defs)
  have 12: "Equal std_pkg (Some ?ul) (Some ?ul)"
    by (simp add: mem_defs)
  from list_unit_roundtrip [where c = mem_create and st = start and X = std_pkg and l = None,
      OF a b c d e f 1 2 3 4 5 6 7 8 9 10] 11 12
  show ?thesis
    by simp
qed

section \<open>The configuration round trip (scenario twelve)\<close>

text \<open>
  Claim C3. With a factory \<open>lf\<close> supplied, the last scenario builds the plain text unit
  titled \<^verbatim>\<open>MyUnit\<close> with the data \<^verbatim>\<open>MyData\<close>, takes a fresh instance, creates it, saves
  the unit, serializes the instance and hands the bytes to \<open>lf\<close>. It passes exactly when
  \<^verbatim>\<open>Create\<close>, \<^verbatim>\<open>SaveUnit\<close> and the serialization return no error, the bytes are not
  nil, \<open>lf\<close> returns an instance and no error, and \<^verbatim>\<open>LoadUnit\<close> of the identifier of the
  saved unit on the instance that \<open>lf\<close> returned gives no error and a unit that the
  equality oracle accepts against the saved one.
\<close>

theorem config_roundtrip:
  assumes "u = TextPlain (newID X (next_id st)) ''MyUnit'' ''MyData''"
    and "c (world st) = (s, w1)"
    and "Create B s w1 = (e1, w2)"
    and "SaveUnit B s (Some u) w2 = (e2, w3)"
    and "Marshal B s w3 = ((config, e3), w4)"
    and "lf config w4 = ((sl, e4), w5)"
  shows "outcome (test_config_serialized X B c (Some lf)) st = Passed \<longleftrightarrow>
           e1 = None \<and> e2 = None \<and> e3 = None \<and> config \<noteq> None \<and> e4 = None \<and>
           (\<exists>sv. sl = Some sv \<and>
              (case LoadUnit B sv (ID u) w5 of
                 ((lu, e5), w6) \<Rightarrow> e5 = None \<and> lu \<noteq> None \<and> Equal X (Some u) lu))"
  using assms
  by (cases sl)
     (auto simp add: outcome_def verdict_def test_config_serialized_def constructors storage_calls
       assertions split: prod.splits)

text \<open>
  On the in-memory storage the configuration of an instance is its index, and the
  instance rebuilt from it reads the same units.
\<close>

theorem config_roundtrip_witness:
  "outcome (test_config_serialized std_pkg strict_storage mem_create (Some mem_load)) start =
     Passed"
proof -
  let ?u = "TextPlain ''u'' ''MyUnit'' ''MyData''"
  have 0: "?u = TextPlain (newID std_pkg (next_id start)) ''MyUnit'' ''MyData''"
    by (simp add: mem_defs)
  have 1: "mem_create (world start) = (0, [\<lparr>created = False, removed = False, units = []\<rparr>])"
    by (simp add: mem_defs)
  have 2: "Create strict_storage 0 [\<lparr>created = False, removed = False, units = []\<rparr>] =
      (None, [\<lparr>created = True, removed = False, units = []\<rparr>])"
    by (simp add: mem_defs)
  have 3: "SaveUnit strict_storage 0 (Some ?u) [\<lparr>created = True, removed = False, units = []\<rparr>] =
      (None, [\<lparr>created = True, removed = False, units = [(''u'', ?u)]\<rparr>])"
    by (simp add: mem_defs)
  have 4: "Marshal strict_storage 0 [\<lparr>created = True, removed = False, units = [(''u'', ?u)]\<rparr>] =
      ((Some [], None), [\<lparr>created = True, removed = False, units = [(''u'', ?u)]\<rparr>])"
    by (simp add: mem_defs)
  have 5: "mem_load (Some []) [\<lparr>created = True, removed = False, units = [(''u'', ?u)]\<rparr>] =
      ((Some 0, None), [\<lparr>created = True, removed = False, units = [(''u'', ?u)]\<rparr>])"
    by (simp add: mem_defs)
  have 6: "LoadUnit strict_storage 0 (ID ?u)
        [\<lparr>created = True, removed = False, units = [(''u'', ?u)]\<rparr>] =
      ((Some ?u, None), [\<lparr>created = True, removed = False, units = [(''u'', ?u)]\<rparr>])"
    by (simp add: mem_defs)
  have 7: "Equal std_pkg (Some ?u) (Some ?u)"
    by (simp add: mem_defs)
  from config_roundtrip [where c = mem_create and st = start and X = std_pkg and lf = mem_load,
      OF 0 1 2 3 4 5] 6 7
  show ?thesis
    by simp
qed

section \<open>The optional factory (scenario twelve and the others)\<close>

text \<open>
  Claim C6. When the factory \<open>l\<close> is nil the last scenario is skipped: it ends through
  \<^verbatim>\<open>SkipNow\<close> with nothing changed but the skip mark, so it has called no storage
  operation and made no assertion (the trace is as before); its outcome is \<open>Skipped\<close>,
  which is neither \<open>Passed\<close> nor \<open>Failed\<close>; and run as a sub-test it is reported as
  skipped and leaves the parent as it was, not failed.
\<close>

theorem skipped_without_loader:
  "run_state (test_config_serialized X B c None) st = (Exited, st\<lparr>skipped := True\<rparr>) \<and>
   trace (snd (run_state (test_config_serialized X B c None) st)) = trace st \<and>
   world (snd (run_state (test_config_serialized X B c None) st)) = world st \<and>
   outcome (test_config_serialized X B c None) st = Skipped \<and>
   Skipped \<noteq> Passed \<and> Skipped \<noteq> Failed \<and>
   run_state (Run name (test_config_serialized X B c None)) st =
     (Returned, st\<lparr>subtests := subtests st @ [Report name Skipped []]\<rparr>)"
proof -
  have body: "run_state (test_config_serialized X B c None) st = (Exited, st\<lparr>skipped := True\<rparr>)"
    by (simp add: test_config_serialized_def)
  then have same: "trace (snd (run_state (test_config_serialized X B c None) st)) = trace st"
      "world (snd (run_state (test_config_serialized X B c None) st)) = world st"
    by simp_all
  have result: "outcome (test_config_serialized X B c None) st = Skipped"
    by (simp add: test_config_serialized_def outcome_def verdict_def)
  have parent: "run_state (Run name (test_config_serialized X B c None)) st =
      (Returned, st\<lparr>subtests := subtests st @ [Report name Skipped []]\<rparr>)"
    by (simp add: test_config_serialized_def Run_result verdict_def)
  from body same result parent show ?thesis
    by simp
qed

text \<open>The last report of a full run without the factory, on the in-memory storage.\<close>

theorem skipped_without_loader_witness:
  "outcome (test_config_serialized std_pkg strict_storage mem_create None) start = Skipped \<and>
   run_state (Run ''Directory config can be JSON serialized/deserialized ''
       (test_config_serialized std_pkg strict_storage mem_create None)) start =
     (Returned, start\<lparr>subtests :=
        [Report ''Directory config can be JSON serialized/deserialized '' Skipped []]\<rparr>)"
  using skipped_without_loader [of std_pkg strict_storage mem_create start
      "''Directory config can be JSON serialized/deserialized ''"]
  by (simp add: start_def)

text \<open>
  Claim C10. No scenario of the catalogue but the last uses the factory \<open>l\<close>: run with
  any two values of it, nil or not, from the same state, such a scenario ends in the same
  way with the same state, hence with the same trace of storage calls and assertions and
  the same outcome.
\<close>

theorem loader_not_used:
  assumes "t \<in> set tests"
    and "title t \<noteq> ''Directory config can be JSON serialized/deserialized ''"
  shows "run_state (testFunc t X B c l) st = run_state (testFunc t X B c l') st \<and>
         trace (snd (run_state (testFunc t X B c l) st)) =
           trace (snd (run_state (testFunc t X B c l') st)) \<and>
         outcome (testFunc t X B c l) st = outcome (testFunc t X B c l') st"
proof -
  from assms have "testFunc t X B c l = testFunc t X B c l'"
    by (auto simp add: tests_def test_not_created_initially_def test_created_def
        test_not_usable_before_created_def test_removed_if_not_created_def
        test_removed_if_created_def test_not_created_when_removed_def
        test_simple_unit_types_def test_list_unit_def test_nil_unit_not_saved_def
        test_nil_unit_not_removed_def test_empty_id_not_loaded_def)
  then show ?thesis
    by simp
qed

text \<open>The seventh scenario, with and without the factory, on the in-memory storage.\<close>

theorem loader_not_used_witness:
  "run_state (test_simple_unit_types std_pkg strict_storage mem_create None) start =
     run_state (test_simple_unit_types std_pkg strict_storage mem_create (Some mem_load)) start \<and>
   outcome (test_simple_unit_types std_pkg strict_storage mem_create None) start =
     outcome (test_simple_unit_types std_pkg strict_storage mem_create (Some mem_load)) start"
proof -
  let ?t = "\<lparr>title = ''Storage can handle all supported simple unit types'',
             testFunc = test_simple_unit_types\<rparr> :: (nat, mem_world) test_case"
  have 1: "?t \<in> set tests"
    by (simp add: tests_def)
  have 2: "title ?t \<noteq> ''Directory config can be JSON serialized/deserialized ''"
    by simp
  from loader_not_used [OF 1 2, of std_pkg strict_storage mem_create None start "Some mem_load"]
  show ?thesis
    by simp
qed

section \<open>The sub-tests that a run registers\<close>

lemma subtests_simple_unit_subtest:
  "subtests (snd (run_state (simple_unit_subtest X B c u) st)) = subtests st"
  by (simp add: simple_unit_subtest_def storage_calls assertions split_beta split: option.splits)

lemma subtests_flat_scenarios:
  "subtests (snd (run_state (test_not_created_initially X B c l) st)) = subtests st"
  "subtests (snd (run_state (test_created X B c l) st)) = subtests st"
  "subtests (snd (run_state (test_not_usable_before_created X B c l) st)) = subtests st"
  "subtests (snd (run_state (test_removed_if_not_created X B c l) st)) = subtests st"
  "subtests (snd (run_state (test_removed_if_created X B c l) st)) = subtests st"
  "subtests (snd (run_state (test_not_created_when_removed X B c l) st)) = subtests st"
  "subtests (snd (run_state (test_list_unit X B c l) st)) = subtests st"
  "subtests (snd (run_state (test_nil_unit_not_saved X B c l) st)) = subtests st"
  "subtests (snd (run_state (test_nil_unit_not_removed X B c l) st)) = subtests st"
  "subtests (snd (run_state (test_empty_id_not_loaded X B c l) st)) = subtests st"
  "subtests (snd (run_state (test_config_serialized X B c l) st)) = subtests st"
  by (simp_all add: scenario_defs constructors storage_calls assertions split_beta Let_def
      split: option.splits)

text \<open>The loop of the seventh scenario registers one sub-test per unit, whatever fails.\<close>

lemma range_unitsTests_names:
  "fst (range_unitsTests X B c us st) \<noteq> Panicked \<Longrightarrow>
   map report_name (subtests (snd (range_unitsTests X B c us st))) =
     map report_name (subtests st) @ map (\<lambda>u. TypeString X (Type u)) us"
proof (induction us arbitrary: st)
  case Nil
  then show ?case
    by simp
next
  case (Cons u us)
  obtain r st' where run:
    "run_state (Run (TypeString X (Type u)) (simple_unit_subtest X B c u)) st = (r, st')"
    by (cases "run_state (Run (TypeString X (Type u)) (simple_unit_subtest X B c u)) st")
  from Cons.prems run have np: "r \<noteq> Panicked"
    by (auto split: if_splits)
  with Cons.prems run have "fst (range_unitsTests X B c us st') \<noteq> Panicked"
    by simp
  then have IH: "map report_name (subtests (snd (range_unitsTests X B c us st'))) =
     map report_name (subtests st') @ map (\<lambda>u. TypeString X (Type u)) us"
    by (rule Cons.IH)
  from run have "map report_name (subtests st') =
      map report_name (subtests st) @ [TypeString X (Type u)]"
    by (auto simp add: Run_result split: prod.splits)
  with IH run np show ?case
    by simp
qed

lemma nested_names_tests:
  assumes "t \<in> set tests"
    and "fst (run_state (testFunc t X B c l) st) \<noteq> Panicked"
  shows "map report_name (subtests (snd (run_state (testFunc t X B c l) st))) =
     map report_name (subtests st) @ nested_names X t"
  using assms
  by (auto simp add: tests_def nested_names_def subtests_flat_scenarios
      test_simple_unit_types_unfold range_unitsTests_names simp del: range_unitsTests.simps)

lemma range_tests_reports:
  assumes "\<And>t st. t \<in> set ts \<Longrightarrow> fst (run_state (testFunc t X B c l) st) \<noteq> Panicked \<Longrightarrow>
      map report_name (subtests (snd (run_state (testFunc t X B c l) st))) =
        map report_name (subtests st) @ nested_names X t"
    and "fst (range_tests X B c l ts st) \<noteq> Panicked"
  shows "\<exists>rs. subtests (snd (range_tests X B c l ts st)) = subtests st @ rs \<and>
      map report_name rs = map title ts \<and>
      map (\<lambda>r. map report_name (report_children r)) rs = map (nested_names X) ts"
  using assms
proof (induction ts arbitrary: st)
  case Nil
  then show ?case
    by simp
next
  case (Cons t ts)
  let ?st0 = "st\<lparr>failed := False, skipped := False, subtests := []\<rparr>"
  obtain r1 st1 where body: "run_state (testFunc t X B c l) ?st0 = (r1, st1)"
    by (cases "run_state (testFunc t X B c l) ?st0")
  obtain r st' where run: "run_state (Run (title t) (testFunc t X B c l)) st = (r, st')"
    by (cases "run_state (Run (title t) (testFunc t X B c l)) st")
  from run body have r: "r = (if r1 = Panicked then Panicked else Returned)"
    and sub: "subtests st' = subtests st @ [Report (title t) (verdict r1 st1) (subtests st1)]"
    by (auto simp add: Run_result)
  from Cons.prems(2) run have np: "r \<noteq> Panicked"
    by (auto split: if_splits)
  with r have np1: "r1 \<noteq> Panicked"
    by (auto split: if_splits)
  from Cons.prems(1) [of t ?st0] body np1
  have kids: "map report_name (subtests st1) = nested_names X t"
    by simp
  from Cons.prems(2) run np have "fst (range_tests X B c l ts st') \<noteq> Panicked"
    by simp
  with Cons.IH [of st'] Cons.prems(1)
  obtain rs where rs: "subtests (snd (range_tests X B c l ts st')) = subtests st' @ rs"
      "map report_name rs = map title ts"
      "map (\<lambda>r. map report_name (report_children r)) rs = map (nested_names X) ts"
    by auto
  let ?rep = "Report (title t) (verdict r1 st1) (subtests st1)"
  from run np rs sub kids
  have "subtests (snd (range_tests X B c l (t # ts) st)) = subtests st @ (?rep # rs) \<and>
      map report_name (?rep # rs) = map title (t # ts) \<and>
      map (\<lambda>r. map report_name (report_children r)) (?rep # rs) = map (nested_names X) (t # ts)"
    by simp
  then show ?case
    by blast
qed

text \<open>A full run on the in-memory storage, without the optional factory.\<close>

lemma strict_run:
  "map_prod id subtests
     (run_state (RunStorageTests std_pkg strict_storage mem_create None) start) =
   (Returned,
    [Report ''Storage is not created initially when initialized first time with given arguments''
       Passed [],
     Report ''Storage can be successfully created'' Passed [],
     Report ''Storage can not be used before it will be created'' Passed [],
     Report ''Storage can be removed if not created before'' Passed [],
     Report ''Storage can be removed if was created before'' Passed [],
     Report ''Storage is not created when removed'' Passed [],
     Report ''Storage can handle all supported simple unit types'' Passed
       [Report ''unit'' Passed [], Report ''text_plain'' Passed [],
        Report ''text_markdown'' Passed [], Report ''text_code'' Passed [],
        Report ''todo'' Passed []],
     Report ''Storage can handle list unit'' Passed [],
     Report ''Nil unit cannot be saved'' Passed [],
     Report ''Nil unit cannot be removed'' Passed [],
     Report ''Empty ID cannot be used to load unit'' Passed [],
     Report ''Directory config can be JSON serialized/deserialized '' Skipped []])"
  by code_simp

text \<open>
  Claim C5, as the runner has it. A run of \<^verbatim>\<open>RunStorageTests\<close> that no panic ends
  registers one sub-test per entry of the catalogue, twelve in all, named by the titles,
  which differ from each other. The seventh scenario registers in addition one nested
  sub-test per fixture unit, named by the printed type of the unit, whether or not an
  earlier one failed. No other scenario registers a nested sub-test: the list scenario
  makes all its assertions on its own context.
\<close>

theorem subtests_registered:
  fixes B :: "('h, 'w) Interface"
  assumes "fst (run_state (RunStorageTests X B c l) st) \<noteq> Panicked"
  shows "\<exists>rs. subtests (snd (run_state (RunStorageTests X B c l) st)) = subtests st @ rs \<and>
      map report_name rs = map title (tests :: ('h, 'w) test_case list) \<and>
      length rs = 12 \<and> distinct (map report_name rs) \<and>
      map (\<lambda>r. map report_name (report_children r)) rs =
        [[], [], [], [], [], [],
         map (TypeString X) [TypeUnit, TypeTextPlain, TypeTextMarkdown, TypeTextCode, TypeTodo],
         [], [], [], [], []]"
proof -
  let ?ts = "tests :: ('h, 'w) test_case list"
  from assms have np: "fst (range_tests X B c l ?ts st) \<noteq> Panicked"
    by (simp add: RunStorageTests_def)
  have "\<exists>rs. subtests (snd (range_tests X B c l ?ts st)) = subtests st @ rs \<and>
      map report_name rs = map title ?ts \<and>
      map (\<lambda>r. map report_name (report_children r)) rs = map (nested_names X) ?ts"
  proof (rule range_tests_reports)
    fix t :: "('h, 'w) test_case" and st' :: "('h, 'w) tstate"
    assume "t \<in> set tests" and "fst (run_state (testFunc t X B c l) st') \<noteq> Panicked"
    then show "map report_name (subtests (snd (run_state (testFunc t X B c l) st'))) =
        map report_name (subtests st') @ nested_names X t"
      by (rule nested_names_tests)
  next
    show "fst (range_tests X B c l ?ts st) \<noteq> Panicked"
      by (rule np)
  qed
  then obtain rs where rs: "subtests (snd (range_tests X B c l ?ts st)) = subtests st @ rs"
      "map report_name rs = map title ?ts"
      "map (\<lambda>r. map report_name (report_children r)) rs = map (nested_names X) ?ts"
    by blast
  have kids: "map (nested_names X) ?ts = [[], [], [], [], [], [],
         map (TypeString X) [TypeUnit, TypeTextPlain, TypeTextMarkdown, TypeTextCode, TypeTodo],
         [], [], [], [], []]"
    by (simp add: tests_def nested_names_def)
  have dist: "distinct (map title ?ts)"
    by (simp add: tests_def)
  have len: "length (map title ?ts) = 12"
    by (simp add: tests_def)
  from rs(2) len have "length rs = 12"
    by (metis length_map)
  with rs kids dist show ?thesis
    by (auto simp add: RunStorageTests_def)
qed

text \<open>The full run on the in-memory storage does not panic.\<close>

theorem subtests_registered_witness:
  "\<exists>rs. subtests (snd (run_state (RunStorageTests std_pkg strict_storage mem_create None) start)) =
       subtests start @ rs \<and>
     map report_name rs = map title (tests :: (nat, mem_world) test_case list) \<and>
     length rs = 12 \<and> distinct (map report_name rs) \<and>
     map (\<lambda>r. map report_name (report_children r)) rs =
       [[], [], [], [], [], [],
        map (TypeString std_pkg)
          [TypeUnit, TypeTextPlain, TypeTextMarkdown, TypeTextCode, TypeTodo],
        [], [], [], [], []]"
proof -
  from arg_cong [OF strict_run, of fst]
  have "fst (run_state (RunStorageTests std_pkg strict_storage mem_create None) start) \<noteq> Panicked"
    by simp
  then show ?thesis
    by (rule subtests_registered)
qed

text \<open>
  The claim as written also has one nested sub-test per unit type in the list scenario.
  In the full run on the in-memory storage the eighth report is the one of the list
  scenario and has no nested report, while the seventh has five.
\<close>

theorem list_scenario_not_nested_counterexample:
  "report_name (subtests (snd
     (run_state (RunStorageTests std_pkg strict_storage mem_create None) start)) ! 7) =
     ''Storage can handle list unit'' \<and>
   report_children (subtests (snd
     (run_state (RunStorageTests std_pkg strict_storage mem_create None) start)) ! 7) = [] \<and>
   length (report_children (subtests (snd
     (run_state (RunStorageTests std_pkg strict_storage mem_create None) start)) ! 6)) = 5"
proof -
  from arg_cong [OF strict_run, of snd]
  have "subtests (snd (run_state (RunStorageTests std_pkg strict_storage mem_create None) start)) =
    [Report ''Storage is not created initially when initialized first time with given arguments''
       Passed [],
     Report ''Storage can be successfully created'' Passed [],
     Report ''Storage can not be used before it will be created'' Passed [],
     Report ''Storage can be removed if not created before'' Passed [],
     Report ''Storage can be removed if was created before'' Passed [],
     Report ''Storage is not created when removed'' Passed [],
     Report ''Storage can handle all supported simple unit types'' Passed
       [Report ''unit'' Passed [], Report ''text_plain'' Passed [],
        Report ''text_markdown'' Passed [], Report ''text_code'' Passed [],
        Report ''todo'' Passed []],
     Report ''Storage can handle list unit'' Passed [],
     Report ''Nil unit cannot be saved'' Passed [],
     Report ''Nil unit cannot be removed'' Passed [],
     Report ''Empty ID cannot be used to load unit'' Passed [],
     Report ''Directory config can be JSON serialized/deserialized '' Skipped []]"
    by simp
  then show ?thesis
    by simp
qed

end
